theory Spec2Isabelle
  imports Complex_Main
begin

section \<open>Python values, exceptions and the outside world\<close>

text \<open>
  The module \<^verbatim>\<open>dbt/schema_tester.py\<close> talks to a PostgreSQL database through
  psycopg2, writes to a logger, prints to standard output and reads the clock. None of
  these collaborators is part of the module, so each call to them is an event of a trace,
  and what they answer is an input of the model:
  \<^item> the database answers \<^verbatim>\<open>cursor.execute(stmt)\<close> by returning, by raising
    \<^verbatim>\<open>psycopg2.ProgrammingError\<close>, or by raising another exception;
  \<^item> \<^verbatim>\<open>time.time()\<close> answers with the next reading of a clock.
  Python is taken with the semantics of Python 3: an ordering comparison between a
  string (or None) and an integer raises TypeError.
\<close>

text \<open>The values a result column or a run status holds: None, an integer or a string.\<close>

datatype pyval = PNone | PInt int | PStr string

text \<open>What a global name of a module is bound to.\<close>

datatype pyobj = PyModule string | PyConst string | PyClass string | PyObject string

text \<open>
  The exceptions that leave a function of the module. \<open>ProgrammingError\<close> is
  psycopg2's; \<open>OtherException name tag\<close> is any exception that is not a
  ProgrammingError, with the \<^verbatim>\<open>e.model\<close> attribute that
  \<^verbatim>\<open>execute_query\<close> attaches before re-raising.
\<close>

datatype py_error =
    NameError string
  | TypeError string
  | RuntimeError string
  | ProgrammingError string
  | OtherException string "pyobj option"

text \<open>
  The answer of \<^verbatim>\<open>cursor.execute(stmt)\<close>. \<open>Executed status rows\<close>: the
  statement ran, \<^verbatim>\<open>cursor.statusmessage\<close> is \<open>status\<close> and the result set
  is \<open>rows\<close> (\<open>None\<close> for a statement that produces no result set, such as DDL).
  \<open>RaisesProgrammingError m\<close>: psycopg2.ProgrammingError whose
  \<^verbatim>\<open>diag.message_primary\<close> is \<open>m\<close>. \<open>RaisesException name\<close>: any other
  exception (OperationalError, InternalError, ...).
\<close>

datatype exec_outcome =
    Executed string "pyval list list option"
  | RaisesProgrammingError pyval
  | RaisesException string

datatype logarg = AStr string | ANum real | ARow "pyval list"

datatype event =
    GetTarget
  | GetHandle
  | Cursor
  | LogDebug string "logarg list"
  | LogError string "logarg list"
  | LogException string "logarg list"
  | TimeTime real
  | Execute string
  | FetchOne
  | Print string

record world =
  trace :: "event list"
  ticks :: nat
  clock :: "nat \<Rightarrow> real"

definition emit :: "event \<Rightarrow> world \<Rightarrow> world" where
  "emit e w = w\<lparr>trace := trace w @ [e]\<rparr>"

text \<open>\<^verbatim>\<open>time.time()\<close>: the next reading of the clock.\<close>

definition time_time :: "world \<Rightarrow> real \<times> world" where
  "time_time w =
     (clock w (ticks w), (emit (TimeTime (clock w (ticks w))) w)\<lparr>ticks := Suc (ticks w)\<rparr>)"

text \<open>
  The target that \<^verbatim>\<open>dbt.targets.get_target\<close> returns: its schema name, whether
  \<^verbatim>\<open>get_handle()\<close> opens a connection (\<open>None\<close>) or raises the named exception,
  and how the database answers each statement. The answer is a function of the
  statement text: no function of the module executes the same text twice in one call.
  Leaving a \<^verbatim>\<open>with\<close> block closes the cursor and ends the transaction of the
  connection; neither is an event of the trace.
\<close>

record target =
  schema :: string
  connect :: "string option"
  respond :: "string \<Rightarrow> exec_outcome"

text \<open>
  A \<^verbatim>\<open>SchemaTester\<close> object: the target its project resolves to, and the text of
  \<^verbatim>\<open>self.test_started_at\<close>, the \<^verbatim>\<open>datetime.datetime.now()\<close> taken once in
  \<^verbatim>\<open>__init__\<close>.
\<close>

record schema_tester =
  project_target :: target
  test_started_at :: string

text \<open>A schema test: what its \<^verbatim>\<open>render()\<close> does, raise or return SQL text.\<close>

record schema_test =
  render :: "py_error + string"

subsection \<open>Formatting\<close>

definition digit_char :: "nat \<Rightarrow> char" where
  "digit_char d = ''0123456789'' ! d"

function str_nat :: "nat \<Rightarrow> string" where
  "str_nat n = (if n < 10 then [digit_char n] else str_nat (n div 10) @ [digit_char (n mod 10)])"
  by pat_completeness auto
termination
  by (relation "measure id") auto

declare str_nat.simps [simp del]

text \<open>\<^verbatim>\<open>str(i)\<close> of a Python integer.\<close>

definition str_int :: "int \<Rightarrow> string" where
  "str_int i = (if i < 0 then CHR ''-'' # str_nat (nat (- i)) else str_nat (nat i))"

text \<open>What \<^verbatim>\<open>"{}".format(v)\<close> gives.\<close>

fun py_format :: "pyval \<Rightarrow> string" where
  "py_format PNone = ''None''"
| "py_format (PInt i) = str_int i"
| "py_format (PStr s) = s"

text \<open>\<^verbatim>\<open>v > 0\<close> in Python 3.\<close>

fun py_gt_zero :: "pyval \<Rightarrow> py_error + bool" where
  "py_gt_zero (PInt i) = Inr (0 < i)"
| "py_gt_zero (PStr s) =
     Inl (TypeError ''unorderable types: str() > int()'')"
| "py_gt_zero PNone =
     Inl (TypeError ''unorderable types: NoneType() > int()'')"

text \<open>\<^verbatim>\<open>sep.join(xs)\<close>.\<close>

fun join :: "string \<Rightarrow> string list \<Rightarrow> string" where
  "join sep [] = []"
| "join sep [x] = x"
| "join sep (x # y # ys) = x @ sep @ join sep (y # ys)"

section \<open>The module's global names\<close>

text \<open>
  The names that the module binds at import time: its imports, its six string
  constants and its class. A name that a function body reads and does not assign is
  looked up here (and then among the builtins, which have no \<^verbatim>\<open>model\<close>).
\<close>

definition module_globals :: "string \<Rightarrow> pyobj option" where
  "module_globals = map_of
     [(''os'', PyModule ''os''),
      (''dbt'', PyModule ''dbt''),
      (''psycopg2'', PyModule ''psycopg2''),
      (''logging'', PyModule ''logging''),
      (''time'', PyModule ''time''),
      (''datetime'', PyModule ''datetime''),
      (''QUERY_VALIDATE_NOT_NULL'', PyConst ''QUERY_VALIDATE_NOT_NULL''),
      (''QUERY_VALIDATE_UNIQUE'', PyConst ''QUERY_VALIDATE_UNIQUE''),
      (''QUERY_VALIDATE_ACCEPTED_VALUES'', PyConst ''QUERY_VALIDATE_ACCEPTED_VALUES''),
      (''QUERY_VALIDATE_REFERENTIAL_INTEGRITY'', PyConst ''QUERY_VALIDATE_REFERENTIAL_INTEGRITY''),
      (''DDL_TEST_RESULT_CREATE'', PyConst ''DDL_TEST_RESULT_CREATE''),
      (''INSERT_TEST_RESULT_TEMPLATE'', PyConst ''INSERT_TEST_RESULT_TEMPLATE''),
      (''SchemaTester'', PyClass ''SchemaTester'')]"

definition load_global :: "(string \<Rightarrow> pyobj option) \<Rightarrow> string \<Rightarrow> py_error + pyobj" where
  "load_global g name = (case g name of None \<Rightarrow> Inl (NameError name) | Some v \<Rightarrow> Inr v)"

section \<open>The validation executor\<close>

text \<open>\<^verbatim>\<open>SchemaTester.get_target\<close>.\<close>

definition get_target :: "schema_tester \<Rightarrow> world \<Rightarrow> target \<times> world" where
  "get_target self w = (project_target self, emit GetTarget w)"

text \<open>
  \<^verbatim>\<open>SchemaTester.execute_query(model, sql)\<close>. The two \<^verbatim>\<open>with\<close> blocks open
  the connection and the cursor; inside the \<^verbatim>\<open>try\<close> the statement is logged, the
  clock is read, the statement is executed, the clock is read again and the status is
  logged. A ProgrammingError is logged and its primary message returned; any other
  exception is logged, tagged with the model and raised again. After the \<^verbatim>\<open>try\<close>,
  \<^verbatim>\<open>fetchone()\<close> gives the first row of the result set (None when it is empty;
  it raises ProgrammingError when there is no result set), and \<^verbatim>\<open>len(result)\<close>,
  the number of columns of that row, decides between RuntimeError and
  \<^verbatim>\<open>result[0]\<close>.
\<close>

definition execute_query ::
  "schema_tester \<Rightarrow> pyobj \<Rightarrow> string \<Rightarrow> world \<Rightarrow> (py_error + pyval) \<times> world" where
  "execute_query self model sql w =
     (let (target, w1) = get_target self w;
          w2 = emit GetHandle w1
      in case connect target of
           Some exn \<Rightarrow> (Inl (OtherException exn None), w2)
         | None \<Rightarrow>
            (let w3 = emit Cursor w2;
                 w4 = emit (LogDebug ''SQL: %s'' [AStr sql]) w3;
                 (pre, w5) = time_time w4;
                 w6 = emit (Execute sql) w5
             in case respond target sql of
                  RaisesProgrammingError message_primary \<Rightarrow>
                    (Inr message_primary,
                     emit (LogException ''programming error: %s'' [AStr sql]) w6)
                | RaisesException exn \<Rightarrow>
                    (Inl (OtherException exn (Some model)),
                     emit (LogException ''encountered exception while running: %s'' [AStr sql]) w6)
                | Executed statusmessage rows \<Rightarrow>
                    (let (post, w7) = time_time w6;
                         w8 = emit (LogDebug ''SQL status: %s in %d seconds''
                                      [AStr statusmessage, ANum (post - pre)]) w7;
                         w9 = emit FetchOne w8
                     in case rows of
                          None \<Rightarrow> (Inl (ProgrammingError ''no results to fetch''), w9)
                        | Some [] \<Rightarrow>
                            (Inl (TypeError ''object of type 'NoneType' has no len()''), w9)
                        | Some (result # others) \<Rightarrow>
                            if length result \<noteq> 1 then
                              (Inl (RuntimeError
                                     (''Unexpected validation result. Expected 1 record, got ''
                                       @ str_nat (length result))),
                               emit (LogError ''RESULT: %s'' [ARow result])
                                 (emit (LogError ''SQL: %s'' [AStr sql]) w9))
                            else (Inr (result ! 0), w9))))"

text \<open>
  \<^verbatim>\<open>SchemaTester.validate_schema(schema_test)\<close> is a generator: its body runs when
  the caller iterates it. The model is that iteration: the values it yields, or the
  exception that ends it. \<open>g\<close> is the module's global namespace at that time; the body
  reads the name \<^verbatim>\<open>model\<close> from it, since the function neither takes nor assigns
  a variable of that name.
\<close>

definition validate_schema ::
  "(string \<Rightarrow> pyobj option) \<Rightarrow> schema_tester \<Rightarrow> schema_test \<Rightarrow> world
     \<Rightarrow> (py_error + bool list) \<times> world" where
  "validate_schema g self schema_test w =
     (case render schema_test of
        Inl exn \<Rightarrow> (Inl exn, w)
      | Inr sql \<Rightarrow>
         (case load_global g ''model'' of
            Inl exn \<Rightarrow> (Inl exn, w)
          | Inr model \<Rightarrow>
             (case execute_query self model sql w of
                (Inl exn, w') \<Rightarrow> (Inl exn, w')
              | (Inr num_rows, w') \<Rightarrow>
                  if num_rows = PInt 0 then (Inr [True], emit (Print ''  OK'') w')
                  else (Inr [False],
                        emit (Print (''  FAILED ('' @ py_format num_rows @ '')'')) w'))))"

section \<open>The result recorder\<close>

text \<open>A run outcome of the feed: \<^verbatim>\<open>res.model.name\<close>, \<^verbatim>\<open>res.status\<close>, the truth
  values of \<^verbatim>\<open>res.errored\<close> and \<^verbatim>\<open>res.skipped\<close>, and the text that
  \<^verbatim>\<open>res.execution_time\<close> formats to.\<close>

record run_model_result =
  res_model_name :: string
  res_status :: pyval
  res_errored :: bool
  res_skipped :: bool
  res_execution_time :: string

text \<open>The keyword arguments of one \<^verbatim>\<open>value_template.format(...)\<close> call: the
  seven columns of one row of \<^verbatim>\<open>dbt_test_results\<close>.\<close>

record result_row =
  tested_at :: string
  model_name :: string
  errored :: string
  skipped :: string
  failed :: string
  count_failures :: pyval
  execution_time :: string

definition quote :: string where
  "quote = [CHR 0x27]"

text \<open>\<^verbatim>\<open>DDL_TEST_RESULT_CREATE.format(schema=...)\<close>.\<close>

definition DDL_TEST_RESULT_CREATE :: "string \<Rightarrow> string" where
  "DDL_TEST_RESULT_CREATE schema_name =
     ''\<newline>create table if not exists '' @ schema_name @ ''.dbt_test_results (\<newline>''
     @ ''    tested_at timestamp without time zone,\<newline>''
     @ ''    model_name text,\<newline>''
     @ ''    errored bool,\<newline>''
     @ ''    skipped bool,\<newline>''
     @ ''    failed bool,\<newline>''
     @ ''    count_failures integer,\<newline>''
     @ ''    execution_time double precision\<newline>''
     @ '');\<newline>''"

text \<open>\<^verbatim>\<open>INSERT_TEST_RESULT_TEMPLATE.format(values=..., schema=...)\<close>.\<close>

definition INSERT_TEST_RESULT_TEMPLATE :: "string \<Rightarrow> string \<Rightarrow> string" where
  "INSERT_TEST_RESULT_TEMPLATE joined schema_name =
     ''\<newline>insert into '' @ schema_name @ ''.dbt_test_results\<newline>''
     @ ''    (tested_at, model_name, errored, skipped, failed, count_failures, execution_time)\<newline>''
     @ ''values\<newline>''
     @ ''    '' @ joined @ ''\<newline>''"

text \<open>\<^verbatim>\<open>value_template.format(...)\<close>.\<close>

definition value_template :: "result_row \<Rightarrow> string" where
  "value_template kw =
     ''('' @ quote @ tested_at kw @ quote @ '', '' @ quote @ model_name kw @ quote @ '', ''
     @ errored kw @ '', '' @ skipped kw @ '', '' @ failed kw @ '', ''
     @ py_format (count_failures kw) @ '', '' @ execution_time kw @ '')''"

text \<open>The body of the \<^verbatim>\<open>for\<close> loop up to the format call: \<^verbatim>\<open>failed_rows\<close>
  and the keyword arguments. The comparison \<^verbatim>\<open>failed_rows > 0\<close> is the one
  step that can raise.\<close>

definition format_kwargs :: "schema_tester \<Rightarrow> run_model_result \<Rightarrow> py_error + result_row" where
  "format_kwargs self res =
     (let failed_rows = (if res_status res = PStr ''ERROR'' then PInt 0 else res_status res)
      in case py_gt_zero failed_rows of
           Inl exn \<Rightarrow> Inl exn
         | Inr positive \<Rightarrow>
             Inr \<lparr>tested_at = test_started_at self,
                  model_name = res_model_name res,
                  errored = (if res_errored res then ''true'' else ''false''),
                  skipped = (if res_skipped res then ''true'' else ''false''),
                  failed = (if positive then ''true'' else ''false''),
                  count_failures = failed_rows,
                  execution_time = res_execution_time res\<rparr>)"

text \<open>The \<^verbatim>\<open>for res in run_model_results\<close> loop, with the list \<^verbatim>\<open>values\<close>
  as accumulator.\<close>

fun values_loop ::
  "schema_tester \<Rightarrow> run_model_result list \<Rightarrow> string list \<Rightarrow> py_error + string list" where
  "values_loop self [] values = Inr values"
| "values_loop self (res # rest) values =
     (case format_kwargs self res of
        Inl exn \<Rightarrow> Inl exn
      | Inr kw \<Rightarrow> values_loop self rest (values @ [value_template kw]))"

text \<open>\<^verbatim>\<open>SchemaTester.create_test_results_table_if_not_exist\<close>: only
  ProgrammingError is caught.\<close>

definition create_test_results_table_if_not_exist ::
  "schema_tester \<Rightarrow> world \<Rightarrow> (py_error + unit) \<times> world" where
  "create_test_results_table_if_not_exist self w =
     (let (target, w1) = get_target self w;
          w2 = emit GetHandle w1
      in case connect target of
           Some exn \<Rightarrow> (Inl (OtherException exn None), w2)
         | None \<Rightarrow>
            (let w3 = emit Cursor w2;
                 stmt = DDL_TEST_RESULT_CREATE (schema target);
                 w4 = emit (Execute stmt) w3
             in case respond target stmt of
                  RaisesProgrammingError message_primary \<Rightarrow>
                    (Inr (), emit (LogException ''programming error: %s'' [AStr stmt]) w4)
                | RaisesException exn \<Rightarrow> (Inl (OtherException exn None), w4)
                | Executed statusmessage rows \<Rightarrow> (Inr (), w4)))"

text \<open>\<^verbatim>\<open>SchemaTester.insert_test_results(run_model_results)\<close>.\<close>

definition insert_test_results ::
  "schema_tester \<Rightarrow> run_model_result list \<Rightarrow> world \<Rightarrow> (py_error + unit) \<times> world" where
  "insert_test_results self run_model_results w =
     (let (target, w1) = get_target self w
      in case create_test_results_table_if_not_exist self w1 of
           (Inl exn, w2) \<Rightarrow> (Inl exn, w2)
         | (Inr u, w2) \<Rightarrow>
            (case values_loop self run_model_results [] of
               Inl exn \<Rightarrow> (Inl exn, w2)
             | Inr values \<Rightarrow>
                (let joined = join '',\<newline>'' values;
                     stmt = INSERT_TEST_RESULT_TEMPLATE joined (schema target);
                     w3 = emit GetHandle w2
                 in case connect target of
                      Some exn \<Rightarrow> (Inl (OtherException exn None), w3)
                    | None \<Rightarrow>
                       (let w4 = emit Cursor w3;
                            w5 = emit (Execute stmt) w4
                        in case respond target stmt of
                             RaisesProgrammingError message_primary \<Rightarrow>
                               (Inr (),
                                emit (LogException ''programming error: %s'' [AStr stmt]) w5)
                           | RaisesException exn \<Rightarrow> (Inl (OtherException exn None), w5)
                           | Executed statusmessage rows \<Rightarrow> (Inr (), w5)))))"

text \<open>The statements that a trace hands to \<^verbatim>\<open>cursor.execute\<close>, in order, and those
  among them that the database runs without raising. PostgreSQL runs a statement as a
  whole or not at all, so the rows that reach the table are the rows of the insert
  statements of the second list.\<close>

fun executed_statements :: "event list \<Rightarrow> string list" where
  "executed_statements [] = []"
| "executed_statements (Execute stmt # evs) = stmt # executed_statements evs"
| "executed_statements (ev # evs) = executed_statements evs"

fun accepted :: "exec_outcome \<Rightarrow> bool" where
  "accepted (Executed statusmessage rows) = True"
| "accepted (RaisesProgrammingError message_primary) = False"
| "accepted (RaisesException exn) = False"

definition applied_statements :: "target \<Rightarrow> event list \<Rightarrow> string list" where
  "applied_statements t evs = filter (\<lambda>stmt. accepted (respond t stmt)) (executed_statements evs)"

section \<open>The referential-integrity query\<close>

text \<open>
  \<^verbatim>\<open>QUERY_VALIDATE_REFERENTIAL_INTEGRITY\<close> is SQL text; what it counts is decided by
  SQL's three-valued logic. A column value is \<open>None\<close> (NULL) or \<open>Some v\<close>. The two
  common table expressions project one column each, so the inputs are the list
  \<open>parent\<close> of the values of \<^verbatim>\<open>{parent_field}\<close> and the list \<open>child\<close> of the
  values of \<^verbatim>\<open>{child_field}\<close>, one entry per table row.
\<close>

datatype sql_bool = SqlTrue | SqlFalse | SqlNull

fun sql_eq :: "'a option \<Rightarrow> 'a option \<Rightarrow> sql_bool" where
  "sql_eq (Some a) (Some b) = (if a = b then SqlTrue else SqlFalse)"
| "sql_eq x y = SqlNull"

fun sql_not :: "sql_bool \<Rightarrow> sql_bool" where
  "sql_not SqlTrue = SqlFalse"
| "sql_not SqlFalse = SqlTrue"
| "sql_not SqlNull = SqlNull"

fun sql_or :: "sql_bool \<Rightarrow> sql_bool \<Rightarrow> sql_bool" where
  "sql_or SqlTrue q = SqlTrue"
| "sql_or p SqlTrue = SqlTrue"
| "sql_or SqlFalse SqlFalse = SqlFalse"
| "sql_or p q = SqlNull"

fun sql_and :: "sql_bool \<Rightarrow> sql_bool \<Rightarrow> sql_bool" where
  "sql_and SqlFalse q = SqlFalse"
| "sql_and p SqlFalse = SqlFalse"
| "sql_and SqlTrue SqlTrue = SqlTrue"
| "sql_and p q = SqlNull"

text \<open>\<^verbatim>\<open>x in (select id from ...)\<close>: true when some row equals \<open>x\<close>, false when
  every comparison is false (so false on no rows), NULL otherwise.\<close>

fun sql_in :: "'a option \<Rightarrow> 'a option list \<Rightarrow> sql_bool" where
  "sql_in x [] = SqlFalse"
| "sql_in x (y # ys) = sql_or (sql_eq x y) (sql_in x ys)"

fun sql_is_not_null :: "'a option \<Rightarrow> sql_bool" where
  "sql_is_not_null None = SqlFalse"
| "sql_is_not_null (Some v) = SqlTrue"

text \<open>\<^verbatim>\<open>select count(*) from child where id not in (select id from parent) and id
  is not null\<close>: a row is counted when the \<^verbatim>\<open>where\<close> condition is true.\<close>

definition QUERY_VALIDATE_REFERENTIAL_INTEGRITY :: "'a option list \<Rightarrow> 'a option list \<Rightarrow> nat" where
  "QUERY_VALIDATE_REFERENTIAL_INTEGRITY parent child =
     length (filter (\<lambda>id. sql_and (sql_not (sql_in id parent)) (sql_is_not_null id) = SqlTrue)
               child)"

section \<open>Example objects\<close>

text \<open>A clock that reads 10, 15, 20, ...; a world with nothing in its trace; a target
  whose database answers every statement in the same way; a tester on it.\<close>

definition ex_clock :: "nat \<Rightarrow> real" where
  "ex_clock n = 10 + 5 * real n"

definition ex_world :: world where
  "ex_world = \<lparr>trace = [], ticks = 0, clock = ex_clock\<rparr>"

definition ex_target :: "(string \<Rightarrow> exec_outcome) \<Rightarrow> target" where
  "ex_target db = \<lparr>schema = ''analytics'', connect = None, respond = db\<rparr>"

definition ex_tester :: "(string \<Rightarrow> exec_outcome) \<Rightarrow> schema_tester" where
  "ex_tester db = \<lparr>project_target = ex_target db, test_started_at = ''2016-06-01 12:00:00''\<rparr>"

definition ex_test :: schema_test where
  "ex_test = \<lparr>render = Inr ''select count(*) from t''\<rparr>"

text \<open>A run outcome of the model \<^verbatim>\<open>orders\<close> with a given status, errored flag
  and skipped flag.\<close>

definition ex_result :: "pyval \<Rightarrow> bool \<Rightarrow> bool \<Rightarrow> run_model_result" where
  "ex_result st e sk = \<lparr>res_model_name = ''orders'', res_status = st, res_errored = e,
     res_skipped = sk, res_execution_time = ''0.25''\<rparr>"

section \<open>Properties of the executor\<close>

lemmas executor_defs = execute_query_def get_target_def emit_def time_time_def Let_def

lemmas example_defs = ex_tester_def ex_target_def ex_world_def ex_clock_def ex_test_def

lemma module_globals_model: "module_globals ''model'' = None"
  by (simp add: module_globals_def)

text \<open>Whatever the schema test, an iteration of \<^verbatim>\<open>validate_schema\<close> in the module as
  it is written ends in an exception and leaves the world as it was: nothing is executed,
  nothing is printed, nothing is yielded.\<close>

lemma validate_schema_never_yields:
  "\<exists>exn. validate_schema module_globals self schema_test w = (Inl exn, w)"
  by (cases "render schema_test")
     (simp_all add: validate_schema_def load_global_def module_globals_model)

text \<open>\<^verbatim>\<open>execute_query\<close> by itself returns the single column of the first row.\<close>

lemma execute_query_single_value:
  assumes "connect (project_target self) = None"
    and "respond (project_target self) sql = Executed statusmessage (Some ([v] # others))"
  shows "fst (execute_query self model sql w) = Inr v"
  using assms by (simp add: executor_defs split: prod.splits)

text \<open>In a namespace that binds \<^verbatim>\<open>model\<close>, the comparison of
  \<^verbatim>\<open>validate_schema\<close> yields True and prints OK on the value 0, and yields False and
  prints FAILED with the value on anything else.\<close>

lemma validate_schema_bound_model:
  assumes "render schema_test = Inr sql" and "g ''model'' = Some model"
    and "execute_query self model sql w = (Inr v, w')"
  shows "validate_schema g self schema_test w =
     (if v = PInt 0 then (Inr [True], emit (Print ''  OK'') w')
      else (Inr [False], emit (Print (''  FAILED ('' @ py_format v @ '')'')) w'))"
  using assms by (simp add: validate_schema_def load_global_def)

text \<open>A first row with a number of columns other than one is the RuntimeError; an
  empty result set is the TypeError of \<^verbatim>\<open>len(None)\<close>.\<close>

lemma execute_query_wrong_width:
  assumes "connect (project_target self) = None"
    and "respond (project_target self) sql = Executed statusmessage (Some (result # others))"
    and "length result \<noteq> 1"
  shows "fst (execute_query self model sql w) =
     Inl (RuntimeError (''Unexpected validation result. Expected 1 record, got ''
                          @ str_nat (length result)))"
  using assms by (simp add: executor_defs split: prod.splits)

lemma execute_query_no_row:
  assumes "connect (project_target self) = None"
    and "respond (project_target self) sql = Executed statusmessage (Some [])"
  shows "fst (execute_query self model sql w) =
     Inl (TypeError ''object of type 'NoneType' has no len()'')"
  using assms by (simp add: executor_defs split: prod.splits)

text \<open>
  Claim C10, as stated, at a schema test whose \<^verbatim>\<open>render()\<close> raises KeyError: that
  exception leaves the generator, and no NameError is raised.
\<close>

theorem validate_schema_render_raises:
  "validate_schema module_globals (ex_tester (\<lambda>stmt. Executed ''SELECT 1'' (Some [[PInt 0]])))
     \<lparr>render = Inl (OtherException ''KeyError'' None)\<rparr> ex_world
   = (Inl (OtherException ''KeyError'' None), ex_world)"
  by (simp add: validate_schema_def)

text \<open>
  Claim C10, amended. For every schema test whose \<^verbatim>\<open>render()\<close> returns SQL text,
  iterating \<^verbatim>\<open>validate_schema\<close> raises NameError for the name \<^verbatim>\<open>model\<close>: the
  module binds no such global. The world is unchanged, so the exception comes before any
  statement is executed and before anything is printed or yielded.
\<close>

theorem validate_schema_raises_NameError:
  assumes "render schema_test = Inr sql"
  shows "validate_schema module_globals self schema_test w = (Inl (NameError ''model''), w)"
  using assms by (simp add: validate_schema_def load_global_def module_globals_model)

theorem validate_schema_raises_NameError_witness:
  "render ex_test = Inr ''select count(*) from t'' \<and>
   validate_schema module_globals
     (ex_tester (\<lambda>stmt. Executed ''SELECT 1'' (Some [[PInt 0]]))) ex_test ex_world
     = (Inl (NameError ''model''), ex_world)"
proof -
  have r: "render ex_test = Inr ''select count(*) from t''"
    by (simp add: ex_test_def)
  show ?thesis
    using r validate_schema_raises_NameError [OF r] by simp
qed

text \<open>
  Claim C1. The query returns exactly one row with the one column 0, which the claim
  classifies as Passed. \<^verbatim>\<open>execute_query\<close>, called with a model, returns that 0; but
  \<^verbatim>\<open>validate_schema\<close>, which holds the comparison with 0, raises NameError before
  it calls \<^verbatim>\<open>execute_query\<close>, and classifies nothing.
\<close>

theorem validate_schema_one_row_zero:
  "validate_schema module_globals
     (ex_tester (\<lambda>stmt. Executed ''SELECT 1'' (Some [[PInt 0]]))) ex_test ex_world
     = (Inl (NameError ''model''), ex_world)
   \<and> fst (execute_query (ex_tester (\<lambda>stmt. Executed ''SELECT 1'' (Some [[PInt 0]])))
            (PyObject ''orders'') ''select count(*) from t'' ex_world) = Inr (PInt 0)"
  by (simp add: validate_schema_def load_global_def module_globals_def example_defs executor_defs)

text \<open>
  Claim C3. The result set has two rows of one column each. \<^verbatim>\<open>fetchone()\<close> takes the
  first row, \<^verbatim>\<open>len(result)\<close> is its number of columns, 1, and the value 0 of the
  first row is returned: no exception, and the second row is never seen.
\<close>

theorem execute_query_two_rows:
  "execute_query (ex_tester (\<lambda>stmt. Executed ''SELECT 2'' (Some [[PInt 0], [PInt 7]])))
      (PyObject ''orders'') ''select id from t'' ex_world
   = (Inr (PInt 0),
      \<lparr>trace = [GetTarget, GetHandle, Cursor, LogDebug ''SQL: %s'' [AStr ''select id from t''],
                TimeTime 10, Execute ''select id from t'', TimeTime 15,
                LogDebug ''SQL status: %s in %d seconds'' [AStr ''SELECT 2'', ANum 5],
                FetchOne],
       ticks = 2, clock = ex_clock\<rparr>)"
  by (simp add: example_defs executor_defs)

text \<open>The value that \<^verbatim>\<open>execute_query\<close> returns or raises does not depend on
  what the clock reads.\<close>

lemma execute_query_clock_independent:
  "fst (execute_query self model sql (w\<lparr>clock := c\<rparr>)) = fst (execute_query self model sql w)"
  by (simp add: executor_defs split: option.split exec_outcome.split list.split)

text \<open>
  Claim C2, as stated, at a statement on which the database raises ProgrammingError.
  In the module as written \<^verbatim>\<open>validate_schema\<close> raises NameError; in a namespace
  that binds \<^verbatim>\<open>model\<close> it takes the returned message for a count that is not 0,
  prints FAILED with the message and yields False. Neither is an Errored outcome.
\<close>

theorem validate_schema_on_ProgrammingError:
  "validate_schema module_globals
     (ex_tester (\<lambda>stmt. RaisesProgrammingError (PStr ''relation t does not exist'')))
     ex_test ex_world
     = (Inl (NameError ''model''), ex_world)
   \<and> fst (validate_schema (module_globals(''model'' \<mapsto> PyObject ''orders''))
          (ex_tester (\<lambda>stmt. RaisesProgrammingError (PStr ''relation t does not exist'')))
          ex_test ex_world)
     = Inr [False]
   \<and> last (trace (snd (validate_schema (module_globals(''model'' \<mapsto> PyObject ''orders''))
          (ex_tester (\<lambda>stmt. RaisesProgrammingError (PStr ''relation t does not exist'')))
          ex_test ex_world)))
     = Print ''  FAILED (relation t does not exist)''"
  by (simp add: validate_schema_def load_global_def module_globals_def example_defs executor_defs)

text \<open>
  Claim C2, amended. For every call of \<^verbatim>\<open>execute_query\<close> on an open connection in
  which the database raises ProgrammingError on the statement, the call logs the error
  with \<^verbatim>\<open>logger.exception\<close> and returns the primary diagnostic message as its
  ordinary return value, in the place of the count: nothing is raised, nothing is
  fetched, and the clock is not read a second time.
\<close>

theorem execute_query_ProgrammingError:
  assumes "connect (project_target self) = None"
    and "respond (project_target self) sql = RaisesProgrammingError message_primary"
  shows "execute_query self model sql w =
     (Inr message_primary,
      w\<lparr>trace := trace w @ [GetTarget, GetHandle, Cursor, LogDebug ''SQL: %s'' [AStr sql],
                             TimeTime (clock w (ticks w)), Execute sql,
                             LogException ''programming error: %s'' [AStr sql]],
        ticks := Suc (ticks w)\<rparr>)"
  using assms by (simp add: executor_defs)

theorem execute_query_ProgrammingError_witness:
  "connect (project_target
      (ex_tester (\<lambda>stmt. RaisesProgrammingError (PStr ''relation t does not exist'')))) = None
   \<and> execute_query (ex_tester (\<lambda>stmt. RaisesProgrammingError (PStr ''relation t does not exist'')))
       (PyObject ''orders'') ''select count(*) from t'' ex_world =
     (Inr (PStr ''relation t does not exist''),
      \<lparr>trace = [GetTarget, GetHandle, Cursor,
                LogDebug ''SQL: %s'' [AStr ''select count(*) from t''],
                TimeTime 10, Execute ''select count(*) from t'',
                LogException ''programming error: %s'' [AStr ''select count(*) from t'']],
       ticks = 1, clock = ex_clock\<rparr>)"
proof -
  let ?T = "ex_tester (\<lambda>stmt. RaisesProgrammingError (PStr ''relation t does not exist''))"
  have c: "connect (project_target ?T) = None"
    by (simp add: example_defs)
  have r: "respond (project_target ?T) ''select count(*) from t''
             = RaisesProgrammingError (PStr ''relation t does not exist'')"
    by (simp add: example_defs)
  show ?thesis
    using c execute_query_ProgrammingError [OF c r, of "PyObject ''orders''" ex_world]
    by (simp add: ex_world_def ex_clock_def)
qed

text \<open>
  Claim C8, as stated, at a statement that returns the single row (3). With a clock
  that reads 10 and 15 the call returns 3, and the 5 seconds go to the debug log. With
  a clock that reads 10 and 70 the call returns the same 3: the returned outcome
  carries no execution time.
\<close>

theorem execute_query_time_not_returned:
  "execute_query (ex_tester (\<lambda>stmt. Executed ''SELECT 1'' (Some [[PInt 3]])))
      (PyObject ''orders'') ''select count(*) from t'' ex_world
   = (Inr (PInt 3),
      \<lparr>trace = [GetTarget, GetHandle, Cursor,
                LogDebug ''SQL: %s'' [AStr ''select count(*) from t''],
                TimeTime 10, Execute ''select count(*) from t'', TimeTime 15,
                LogDebug ''SQL status: %s in %d seconds'' [AStr ''SELECT 1'', ANum 5],
                FetchOne],
       ticks = 2, clock = ex_clock\<rparr>)
   \<and> fst (execute_query (ex_tester (\<lambda>stmt. Executed ''SELECT 1'' (Some [[PInt 3]])))
          (PyObject ''orders'') ''select count(*) from t''
          (ex_world\<lparr>clock := \<lambda>n. 10 + 60 * real n\<rparr>))
   = Inr (PInt 3)"
  by (simp add: example_defs executor_defs)

text \<open>
  Claim C8, amended. For every call of \<^verbatim>\<open>execute_query\<close> whose statement the
  database runs, the clock is read immediately before and immediately after
  \<^verbatim>\<open>cursor.execute\<close>, after the connection and the cursor have been acquired, and
  the difference of the two readings is passed to the debug log. The value that the
  call returns or raises is the same under every clock: the time is logged and is not
  attached to the outcome.
\<close>

theorem execute_query_timing:
  assumes "connect (project_target self) = None"
    and "respond (project_target self) sql = Executed statusmessage rows"
  shows "(\<exists>evs. trace (snd (execute_query self model sql w)) =
            trace w @ [GetTarget, GetHandle, Cursor, LogDebug ''SQL: %s'' [AStr sql],
                       TimeTime (clock w (ticks w)), Execute sql,
                       TimeTime (clock w (Suc (ticks w))),
                       LogDebug ''SQL status: %s in %d seconds''
                         [AStr statusmessage,
                          ANum (clock w (Suc (ticks w)) - clock w (ticks w))],
                       FetchOne] @ evs)
       \<and> fst (execute_query self model sql (w\<lparr>clock := c\<rparr>))
           = fst (execute_query self model sql w)"
proof
  show "\<exists>evs. trace (snd (execute_query self model sql w)) =
            trace w @ [GetTarget, GetHandle, Cursor, LogDebug ''SQL: %s'' [AStr sql],
                       TimeTime (clock w (ticks w)), Execute sql,
                       TimeTime (clock w (Suc (ticks w))),
                       LogDebug ''SQL status: %s in %d seconds''
                         [AStr statusmessage,
                          ANum (clock w (Suc (ticks w)) - clock w (ticks w))],
                       FetchOne] @ evs"
  proof (cases rows)
    case None
    with assms show ?thesis by (simp add: executor_defs)
  next
    case (Some rs)
    show ?thesis
    proof (cases rs)
      case Nil
      with Some assms show ?thesis by (simp add: executor_defs)
    next
      case (Cons result others)
      with Some assms show ?thesis
        by (cases "length result = 1") (simp_all add: executor_defs)
    qed
  qed
next
  show "fst (execute_query self model sql (w\<lparr>clock := c\<rparr>))
          = fst (execute_query self model sql w)"
    by (rule execute_query_clock_independent)
qed

theorem execute_query_timing_witness:
  "connect (project_target (ex_tester (\<lambda>stmt. Executed ''SELECT 1'' (Some [[PInt 3]])))) = None
   \<and> (\<exists>evs. trace (snd (execute_query
                (ex_tester (\<lambda>stmt. Executed ''SELECT 1'' (Some [[PInt 3]])))
                (PyObject ''orders'') ''select count(*) from t'' ex_world)) =
            [GetTarget, GetHandle, Cursor,
             LogDebug ''SQL: %s'' [AStr ''select count(*) from t''],
             TimeTime 10, Execute ''select count(*) from t'', TimeTime 15,
             LogDebug ''SQL status: %s in %d seconds'' [AStr ''SELECT 1'', ANum 5],
             FetchOne] @ evs)
   \<and> fst (execute_query (ex_tester (\<lambda>stmt. Executed ''SELECT 1'' (Some [[PInt 3]])))
            (PyObject ''orders'') ''select count(*) from t''
            (ex_world\<lparr>clock := \<lambda>n. 10 + 60 * real n\<rparr>))
       = fst (execute_query (ex_tester (\<lambda>stmt. Executed ''SELECT 1'' (Some [[PInt 3]])))
            (PyObject ''orders'') ''select count(*) from t'' ex_world)"
proof -
  let ?T = "ex_tester (\<lambda>stmt. Executed ''SELECT 1'' (Some [[PInt 3]]))"
  have c: "connect (project_target ?T) = None"
    by (simp add: example_defs)
  have r: "respond (project_target ?T) ''select count(*) from t''
             = Executed ''SELECT 1'' (Some [[PInt 3]])"
    by (simp add: example_defs)
  show ?thesis
    using c execute_query_timing [OF c r, of "PyObject ''orders''" ex_world
                                    "\<lambda>n. 10 + 60 * real n"]
    by (simp add: ex_world_def ex_clock_def)
qed

section \<open>Properties of the recorder\<close>

lemmas recorder_defs = insert_test_results_def create_test_results_table_if_not_exist_def
  get_target_def emit_def Let_def

lemma executed_statements_append:
  "executed_statements (evs @ evs') = executed_statements evs @ executed_statements evs'"
  by (induction evs rule: executed_statements.induct) simp_all

lemma create_table_statements:
  "executed_statements (trace (snd (create_test_results_table_if_not_exist self w))) =
     executed_statements (trace w) @
       (case connect (project_target self) of
          Some exn \<Rightarrow> []
        | None \<Rightarrow> [DDL_TEST_RESULT_CREATE (schema (project_target self))])"
  by (simp add: recorder_defs executed_statements_append
           split: option.split exec_outcome.split)

lemma insert_test_results_statements:
  "executed_statements (trace (snd (insert_test_results self rs w))) =
     executed_statements (trace w) @
       (case connect (project_target self) of
          Some exn \<Rightarrow> []
        | None \<Rightarrow>
            DDL_TEST_RESULT_CREATE (schema (project_target self)) #
            (case respond (project_target self) (DDL_TEST_RESULT_CREATE (schema (project_target self))) of
               RaisesException exn \<Rightarrow> []
             | RaisesProgrammingError m \<Rightarrow>
                 (case values_loop self rs [] of
                    Inl exn \<Rightarrow> []
                  | Inr vs \<Rightarrow> [INSERT_TEST_RESULT_TEMPLATE (join '',\<newline>'' vs) (schema (project_target self))])
             | Executed st rows \<Rightarrow>
                 (case values_loop self rs [] of
                    Inl exn \<Rightarrow> []
                  | Inr vs \<Rightarrow> [INSERT_TEST_RESULT_TEMPLATE (join '',\<newline>'' vs) (schema (project_target self))])))"
  by (simp add: recorder_defs executed_statements_append
           split: option.split exec_outcome.split sum.split)

lemma insert_test_results_Inr:
  assumes "fst (insert_test_results self rs w) = Inr ()"
  shows "connect (project_target self) = None"
    and "\<forall>exn. respond (project_target self)
           (DDL_TEST_RESULT_CREATE (schema (project_target self))) \<noteq> RaisesException exn"
    and "\<exists>vs. values_loop self rs [] = Inr vs"
proof -
  show c: "connect (project_target self) = None"
  proof (cases "connect (project_target self)")
    case (Some exn)
    with assms show ?thesis by (simp add: recorder_defs)
  qed simp
  show d: "\<forall>exn. respond (project_target self)
           (DDL_TEST_RESULT_CREATE (schema (project_target self))) \<noteq> RaisesException exn"
  proof (cases "respond (project_target self) (DDL_TEST_RESULT_CREATE (schema (project_target self)))")
    case (RaisesException exn)
    with assms c show ?thesis by (simp add: recorder_defs)
  qed simp_all
  show "\<exists>vs. values_loop self rs [] = Inr vs"
  proof (cases "values_loop self rs []")
    case (Inl exn)
    with assms c show ?thesis
      by (cases "respond (project_target self) (DDL_TEST_RESULT_CREATE (schema (project_target self)))")
         (simp_all add: recorder_defs)
  qed simp
qed

text \<open>The loop, the join and the insert template written out. A status counts when it
  is an integer or the string \<^verbatim>\<open>"ERROR"\<close>; on such a run the loop returns one tuple
  text per outcome, and on any other run it raises TypeError.\<close>

lemma join_concat:
  "join sep xs = (case xs of [] \<Rightarrow> [] | v # vs \<Rightarrow> v @ concat (map (\<lambda>u. sep @ u) vs))"
  by (induction sep xs rule: join.induct) simp_all

lemma values_loop_numeric:
  assumes "list_all
             (\<lambda>res. case res_status res of
                  PInt k \<Rightarrow> True | PStr s \<Rightarrow> s = ''ERROR'' | PNone \<Rightarrow> False) rs"
  shows "values_loop self rs acc =
           Inr (acc @ map
                  (\<lambda>res.
                     ''('' @ [CHR 0x27] @ test_started_at self @ [CHR 0x27] @ '', ''
                     @ [CHR 0x27] @ res_model_name res @ [CHR 0x27] @ '', ''
                     @ (if res_errored res then ''true'' else ''false'') @ '', ''
                     @ (if res_skipped res then ''true'' else ''false'') @ '', ''
                     @ (if 0 < (case res_status res of PInt k \<Rightarrow> k | PStr s \<Rightarrow> 0 | PNone \<Rightarrow> 0)
                        then ''true'' else ''false'') @ '', ''
                     @ str_int (case res_status res of PInt k \<Rightarrow> k | PStr s \<Rightarrow> 0 | PNone \<Rightarrow> 0)
                     @ '', '' @ res_execution_time res @ '')'') rs)"
  using assms
proof (induction rs arbitrary: acc)
  case Nil
  then show ?case by simp
next
  case (Cons res rest)
  then show ?case
    by (cases "res_status res")
       (simp_all add: format_kwargs_def value_template_def quote_def)
qed

lemma values_loop_not_numeric:
  assumes "\<not> list_all
               (\<lambda>res. case res_status res of
                    PInt k \<Rightarrow> True | PStr s \<Rightarrow> s = ''ERROR'' | PNone \<Rightarrow> False) rs"
  shows "\<exists>msg. values_loop self rs acc = Inl (TypeError msg)"
  using assms
proof (induction rs arbitrary: acc)
  case Nil
  then show ?case by simp
next
  case (Cons res rest)
  show ?case
  proof (cases "res_status res")
    case PNone
    then show ?thesis by (simp add: format_kwargs_def)
  next
    case (PInt k)
    with Cons show ?thesis by (simp add: format_kwargs_def)
  next
    case (PStr s)
    with Cons show ?thesis by (cases "s = ''ERROR''") (simp_all add: format_kwargs_def)
  qed
qed

text \<open>The statements that \<^verbatim>\<open>insert_test_results\<close> hands to the database, as
  text.\<close>

lemma insert_test_results_text:
  "executed_statements (trace (snd (insert_test_results self rs w))) =
     executed_statements (trace w) @
       (case connect (project_target self) of
          Some exn \<Rightarrow> []
        | None \<Rightarrow>
            DDL_TEST_RESULT_CREATE (schema (project_target self)) #
            (case respond (project_target self)
                    (DDL_TEST_RESULT_CREATE (schema (project_target self))) of
               RaisesException exn \<Rightarrow> []
             | ddl_answer \<Rightarrow>
                 (if list_all
                       (\<lambda>res. case res_status res of
                            PInt k \<Rightarrow> True | PStr s \<Rightarrow> s = ''ERROR'' | PNone \<Rightarrow> False) rs
                  then [''\<newline>insert into '' @ schema (project_target self) @ ''.dbt_test_results\<newline>''
                        @ ''    (tested_at, model_name, errored, skipped, failed, count_failures, ''
                        @ ''execution_time)\<newline>''
                        @ ''values\<newline>''
                        @ ''    ''
                        @ (case map
                                 (\<lambda>res.
                                    ''('' @ [CHR 0x27] @ test_started_at self @ [CHR 0x27] @ '', ''
                                    @ [CHR 0x27] @ res_model_name res @ [CHR 0x27] @ '', ''
                                    @ (if res_errored res then ''true'' else ''false'') @ '', ''
                                    @ (if res_skipped res then ''true'' else ''false'') @ '', ''
                                    @ (if 0 < (case res_status res of PInt k \<Rightarrow> k | PStr s \<Rightarrow> 0 | PNone \<Rightarrow> 0)
                                       then ''true'' else ''false'') @ '', ''
                                    @ str_int (case res_status res of PInt k \<Rightarrow> k | PStr s \<Rightarrow> 0 | PNone \<Rightarrow> 0)
                                    @ '', '' @ res_execution_time res @ '')'') rs of
                             [] \<Rightarrow> []
                           | v # vs \<Rightarrow> v @ concat (map (\<lambda>u. '',\<newline>'' @ u) vs))
                        @ ''\<newline>'']
                  else [])))"
proof (cases "list_all
                (\<lambda>res. case res_status res of
                     PInt k \<Rightarrow> True | PStr s \<Rightarrow> s = ''ERROR'' | PNone \<Rightarrow> False) rs")
  case True
  from values_loop_numeric [OF True, of self "[]"] True show ?thesis
    by (simp add: insert_test_results_statements INSERT_TEST_RESULT_TEMPLATE_def join_concat
             split: option.split exec_outcome.split)
next
  case False
  from values_loop_not_numeric [OF False, of self "[]"] False show ?thesis
    by (auto simp: insert_test_results_statements split: option.split exec_outcome.split)
qed

lemma insert_test_results_Inr_numeric:
  assumes "fst (insert_test_results self rs w) = Inr ()"
  shows "list_all
           (\<lambda>res. case res_status res of
                PInt k \<Rightarrow> True | PStr s \<Rightarrow> s = ''ERROR'' | PNone \<Rightarrow> False) rs"
proof (rule ccontr)
  assume "\<not> list_all
              (\<lambda>res. case res_status res of
                   PInt k \<Rightarrow> True | PStr s \<Rightarrow> s = ''ERROR'' | PNone \<Rightarrow> False) rs"
  from values_loop_not_numeric [OF this, of self "[]"] insert_test_results_Inr(3) [OF assms]
  show False by auto
qed


lemmas evaluation_defs = Let_def example_defs ex_result_def str_int_def str_nat.simps
  digit_char_def applied_statements_def

text \<open>
  Claim C4, as stated, at an outcome that is skipped and carries the status 3. The tuple
  is written with \<^verbatim>\<open>count_failures\<close> 3 and \<^verbatim>\<open>failed\<close> true: the loop never
  reads \<^verbatim>\<open>res.skipped\<close> except to copy it into the \<^verbatim>\<open>skipped\<close> slot.
\<close>

theorem skipped_outcome_keeps_status:
  "fst (insert_test_results (ex_tester (\<lambda>stmt. Executed ''OK'' None))
          [ex_result (PInt 3) False True] ex_world) = Inr ()
   \<and> executed_statements (trace (snd (insert_test_results (ex_tester (\<lambda>stmt. Executed ''OK'' None))
          [ex_result (PInt 3) False True] ex_world))) =
     [DDL_TEST_RESULT_CREATE ''analytics'',
      ''\<newline>insert into analytics.dbt_test_results\<newline>''
      @ ''    (tested_at, model_name, errored, skipped, failed, count_failures, ''
      @ ''execution_time)\<newline>''
      @ ''values\<newline>''
      @ ''    ('2016-06-01 12:00:00', 'orders', false, true, true, 3, 0.25)\<newline>'']"
  by (simp add: format_kwargs_def recorder_defs example_defs ex_result_def value_template_def
        quote_def str_int_def str_nat.simps digit_char_def INSERT_TEST_RESULT_TEMPLATE_def)

text \<open>
  Claim C4, amended. On a run in which every status is an integer or \<^verbatim>\<open>"ERROR"\<close>,
  the loop formats for every outcome, skipped or not, the tuple whose \<^verbatim>\<open>skipped\<close>
  slot is the outcome's flag, whose \<^verbatim>\<open>count_failures\<close> slot is 0 for the status
  \<^verbatim>\<open>"ERROR"\<close> and the status itself otherwise, and whose \<^verbatim>\<open>failed\<close> slot is
  true exactly when that number is positive: the skipped flag changes neither slot. On
  a run that holds an outcome with any other status, such as the None of an outcome that
  was never attempted, the loop raises TypeError, the recorder raises, and no insert
  statement is executed. Whenever the recorder returns, every status was an integer or
  \<^verbatim>\<open>"ERROR"\<close> and the statements executed are the table creation and the one insert
  statement made of these tuples, one per outcome, in order.
\<close>

theorem insert_test_results_skipped_rows:
  "let t = project_target self;
       ddl = DDL_TEST_RESULT_CREATE (schema t);
       numeric = list_all
         (\<lambda>res. case res_status res of
              PInt k \<Rightarrow> True | PStr s \<Rightarrow> s = ''ERROR'' | PNone \<Rightarrow> False) rs;
       count = (\<lambda>res. case res_status res of
              PInt k \<Rightarrow> k | PStr s \<Rightarrow> 0 | PNone \<Rightarrow> 0);
       tuple = (\<lambda>res.
            ''('' @ [CHR 0x27] @ test_started_at self @ [CHR 0x27] @ '', ''
            @ [CHR 0x27] @ res_model_name res @ [CHR 0x27] @ '', ''
            @ (if res_errored res then ''true'' else ''false'') @ '', ''
            @ (if res_skipped res then ''true'' else ''false'') @ '', ''
            @ (if 0 < (count res) then ''true'' else ''false'') @ '', ''
            @ str_int (count res) @ '', '' @ res_execution_time res @ '')'');
       ins = ''\<newline>insert into '' @ schema t @ ''.dbt_test_results\<newline>''
             @ ''    (tested_at, model_name, errored, skipped, failed, count_failures, ''
             @ ''execution_time)\<newline>''
             @ ''values\<newline>''
             @ ''    ''
             @ (case map tuple rs of
                  [] \<Rightarrow> []
                | v # vs \<Rightarrow> v @ concat (map (\<lambda>u. '',\<newline>'' @ u) vs))
             @ ''\<newline>''
   in (numeric \<longrightarrow> values_loop self rs [] = Inr (map tuple rs))
    \<and> (\<not> numeric \<longrightarrow>
          (\<exists>msg. values_loop self rs [] = Inl (TypeError msg))
          \<and> fst (insert_test_results self rs w) \<noteq> Inr ()
          \<and> executed_statements (trace (snd (insert_test_results self rs w))) =
              executed_statements (trace w)
              @ (case connect t of Some exn \<Rightarrow> [] | None \<Rightarrow> [ddl]))
    \<and> (fst (insert_test_results self rs w) = Inr () \<longrightarrow>
          numeric
          \<and> executed_statements (trace (snd (insert_test_results self rs w))) =
              executed_statements (trace w) @ [ddl, ins])"
  unfolding Let_def
  apply (intro conjI impI)
  subgoal by (simp add: values_loop_numeric)
  subgoal by (rule values_loop_not_numeric)
  subgoal using insert_test_results_Inr_numeric by blast
  subgoal unfolding insert_test_results_text by (simp split: option.split exec_outcome.split)
  subgoal by (rule insert_test_results_Inr_numeric)
  subgoal premises r
    using insert_test_results_Inr(1,2) [OF r] insert_test_results_Inr_numeric [OF r]
    unfolding insert_test_results_text by (simp split: exec_outcome.split)
  done

theorem insert_test_results_skipped_rows_witness:
  "fst (insert_test_results (ex_tester (\<lambda>stmt. Executed ''OK'' None))
          [ex_result (PInt 3) False True] ex_world) = Inr ()
   \<and> executed_statements (trace (snd (insert_test_results (ex_tester (\<lambda>stmt. Executed ''OK'' None))
          [ex_result (PInt 3) False True] ex_world))) =
     [DDL_TEST_RESULT_CREATE ''analytics'',
      ''\<newline>insert into analytics.dbt_test_results\<newline>''
      @ ''    (tested_at, model_name, errored, skipped, failed, count_failures, ''
      @ ''execution_time)\<newline>''
      @ ''values\<newline>''
      @ ''    ('2016-06-01 12:00:00', 'orders', false, true, true, 3, 0.25)\<newline>'']
   \<and> (\<exists>msg. values_loop (ex_tester (\<lambda>stmt. Executed ''OK'' None))
          [ex_result PNone False True] [] = Inl (TypeError msg))
   \<and> fst (insert_test_results (ex_tester (\<lambda>stmt. Executed ''OK'' None))
          [ex_result PNone False True] ex_world) \<noteq> Inr ()
   \<and> executed_statements (trace (snd (insert_test_results (ex_tester (\<lambda>stmt. Executed ''OK'' None))
          [ex_result PNone False True] ex_world))) =
     [DDL_TEST_RESULT_CREATE ''analytics'']"
proof -
  let ?T = "(ex_tester (\<lambda>stmt. Executed ''OK'' None))"
  have h: "fst (insert_test_results ?T [ex_result (PInt 3) False True] ex_world) = Inr ()"
    by (simp add: format_kwargs_def recorder_defs example_defs ex_result_def)
  from h insert_test_results_skipped_rows [of ?T "[ex_result (PInt 3) False True]" ex_world]
  have a: "executed_statements (trace (snd (insert_test_results ?T
             [ex_result (PInt 3) False True] ex_world))) =
     [DDL_TEST_RESULT_CREATE ''analytics'',
      ''\<newline>insert into analytics.dbt_test_results\<newline>''
      @ ''    (tested_at, model_name, errored, skipped, failed, count_failures, ''
      @ ''execution_time)\<newline>''
      @ ''values\<newline>''
      @ ''    ('2016-06-01 12:00:00', 'orders', false, true, true, 3, 0.25)\<newline>'']"
    by (simp add: evaluation_defs)
  from insert_test_results_skipped_rows [of ?T "[ex_result PNone False True]" ex_world]
  have b: "(\<exists>msg. values_loop ?T [ex_result PNone False True] [] = Inl (TypeError msg))
   \<and> fst (insert_test_results ?T [ex_result PNone False True] ex_world) \<noteq> Inr ()
   \<and> executed_statements (trace (snd (insert_test_results ?T
         [ex_result PNone False True] ex_world))) =
     [DDL_TEST_RESULT_CREATE ''analytics'']"
    by (simp add: evaluation_defs)
  from h a b show ?thesis by blast
qed

lemma map2_map_same: "map2 f xs (map g xs) = map (\<lambda>x. f x (g x)) xs"
  by (induction xs) simp_all

lemma list_all2_counts:
  assumes "list_all
             (\<lambda>res. case res_status res of
                  PInt k \<Rightarrow> True | PStr s \<Rightarrow> s = ''ERROR'' | PNone \<Rightarrow> False) rs"
  shows "list_all2 (\<lambda>res n. res_status res = PInt n \<or> res_status res = PStr ''ERROR'' \<and> n = 0) rs
           (map (\<lambda>res. case res_status res of
                     PInt k \<Rightarrow> k | PStr s \<Rightarrow> 0 | PNone \<Rightarrow> 0) rs)"
  using assms
proof (induction rs)
  case Nil
  then show ?case by simp
next
  case (Cons res rest)
  then show ?case by (cases "res_status res") simp_all
qed

text \<open>
  Claim C6, as stated, at an outcome whose \<^verbatim>\<open>errored\<close> flag is set and whose
  status is 3: the tuple is written with \<^verbatim>\<open>errored\<close> true and
  \<^verbatim>\<open>count_failures\<close> 3. The loop sets the count to 0 on the status
  \<^verbatim>\<open>"ERROR"\<close>, not on the flag.
\<close>

theorem errored_outcome_keeps_status:
  "fst (insert_test_results (ex_tester (\<lambda>stmt. Executed ''OK'' None))
          [ex_result (PInt 3) True False] ex_world) = Inr ()
   \<and> executed_statements (trace (snd (insert_test_results (ex_tester (\<lambda>stmt. Executed ''OK'' None))
          [ex_result (PInt 3) True False] ex_world))) =
     [DDL_TEST_RESULT_CREATE ''analytics'',
      ''\<newline>insert into analytics.dbt_test_results\<newline>''
      @ ''    (tested_at, model_name, errored, skipped, failed, count_failures, ''
      @ ''execution_time)\<newline>''
      @ ''values\<newline>''
      @ ''    ('2016-06-01 12:00:00', 'orders', true, false, true, 3, 0.25)\<newline>'']"
  by (simp add: format_kwargs_def recorder_defs example_defs ex_result_def value_template_def
        quote_def str_int_def str_nat.simps digit_char_def INSERT_TEST_RESULT_TEMPLATE_def)

text \<open>
  Claim C6, amended. Whenever the recorder returns, the insert statement it executed
  holds, for every outcome in order, one tuple text built from an integer \<open>n\<close>: the
  \<^verbatim>\<open>count_failures\<close> slot is the decimal text of \<open>n\<close> and the \<^verbatim>\<open>failed\<close> slot
  is true exactly when \<open>n\<close> is positive, where \<open>n\<close> is the status when the status is an
  integer and 0 when the status is \<^verbatim>\<open>"ERROR"\<close>. The \<^verbatim>\<open>errored\<close> slot is the
  outcome's flag, whatever \<open>n\<close> is. This is a property of the tuple text: the timestamp,
  the model name and the execution time are interpolated as they are.
\<close>

theorem insert_test_results_rows_invariant:
  assumes "fst (insert_test_results self rs w) = Inr ()"
  shows "\<exists>ns. list_all2 (\<lambda>res n. res_status res = PInt n \<or> res_status res = PStr ''ERROR'' \<and> n = 0) rs ns
     \<and> executed_statements (trace (snd (insert_test_results self rs w))) =
         executed_statements (trace w) @
           [DDL_TEST_RESULT_CREATE (schema (project_target self)),
            ''\<newline>insert into '' @ schema (project_target self) @ ''.dbt_test_results\<newline>''
            @ ''    (tested_at, model_name, errored, skipped, failed, count_failures, ''
            @ ''execution_time)\<newline>''
            @ ''values\<newline>''
            @ ''    ''
            @ (case map2
                     (\<lambda>res n.
                        ''('' @ [CHR 0x27] @ test_started_at self @ [CHR 0x27] @ '', ''
                        @ [CHR 0x27] @ res_model_name res @ [CHR 0x27] @ '', ''
                        @ (if res_errored res then ''true'' else ''false'') @ '', ''
                        @ (if res_skipped res then ''true'' else ''false'') @ '', ''
                        @ (if 0 < n then ''true'' else ''false'') @ '', ''
                        @ str_int n @ '', '' @ res_execution_time res @ '')'') rs ns of
                 [] \<Rightarrow> []
               | v # vs \<Rightarrow> v @ concat (map (\<lambda>u. '',\<newline>'' @ u) vs))
            @ ''\<newline>'']"
proof -
  have num: "list_all
               (\<lambda>res. case res_status res of
                    PInt k \<Rightarrow> True | PStr s \<Rightarrow> s = ''ERROR'' | PNone \<Rightarrow> False) rs"
    by (rule insert_test_results_Inr_numeric [OF assms])
  show ?thesis
    apply (rule exI [of _ "map (\<lambda>res. case res_status res of
                                     PInt k \<Rightarrow> k | PStr s \<Rightarrow> 0 | PNone \<Rightarrow> 0) rs"])
    apply (rule conjI)
    subgoal by (rule list_all2_counts [OF num])
    subgoal
      using num insert_test_results_Inr(1,2) [OF assms]
      unfolding insert_test_results_text map2_map_same
      by (simp split: exec_outcome.split)
    done
qed

theorem insert_test_results_rows_invariant_witness:
  "fst (insert_test_results (ex_tester (\<lambda>stmt. Executed ''OK'' None))
          [ex_result (PStr ''ERROR'') True False, ex_result (PInt 2) False False] ex_world)
     = Inr ()
   \<and> executed_statements (trace (snd (insert_test_results (ex_tester (\<lambda>stmt. Executed ''OK'' None))
          [ex_result (PStr ''ERROR'') True False, ex_result (PInt 2) False False] ex_world))) =
     [DDL_TEST_RESULT_CREATE ''analytics'',
      ''\<newline>insert into analytics.dbt_test_results\<newline>''
      @ ''    (tested_at, model_name, errored, skipped, failed, count_failures, ''
      @ ''execution_time)\<newline>''
      @ ''values\<newline>''
      @ ''    ('2016-06-01 12:00:00', 'orders', true, false, false, 0, 0.25),\<newline>''
      @ ''('2016-06-01 12:00:00', 'orders', false, false, true, 2, 0.25)\<newline>'']"
proof -
  let ?T = "(ex_tester (\<lambda>stmt. Executed ''OK'' None))"
  let ?rs = "[ex_result (PStr ''ERROR'') True False, ex_result (PInt 2) False False]"
  have h: "fst (insert_test_results ?T ?rs ex_world) = Inr ()"
    by (simp add: format_kwargs_def recorder_defs example_defs ex_result_def)
  from insert_test_results_rows_invariant [OF h] obtain ns where
    ns: "list_all2 (\<lambda>res n. res_status res = PInt n \<or> res_status res = PStr ''ERROR'' \<and> n = 0) ?rs ns"
    and ex: "executed_statements (trace (snd (insert_test_results ?T ?rs ex_world))) =
         executed_statements (trace ex_world) @
           [DDL_TEST_RESULT_CREATE (schema (project_target ?T)),
            ''\<newline>insert into '' @ schema (project_target ?T) @ ''.dbt_test_results\<newline>''
            @ ''    (tested_at, model_name, errored, skipped, failed, count_failures, ''
            @ ''execution_time)\<newline>''
            @ ''values\<newline>''
            @ ''    ''
            @ (case map2
                     (\<lambda>res n.
                        ''('' @ [CHR 0x27] @ test_started_at ?T @ [CHR 0x27] @ '', ''
                        @ [CHR 0x27] @ res_model_name res @ [CHR 0x27] @ '', ''
                        @ (if res_errored res then ''true'' else ''false'') @ '', ''
                        @ (if res_skipped res then ''true'' else ''false'') @ '', ''
                        @ (if 0 < n then ''true'' else ''false'') @ '', ''
                        @ str_int n @ '', '' @ res_execution_time res @ '')'') ?rs ns of
                 [] \<Rightarrow> []
               | v # vs \<Rightarrow> v @ concat (map (\<lambda>u. '',\<newline>'' @ u) vs))
            @ ''\<newline>'']"
    by blast
  from ns have "ns = [0, 2]"
    by (auto simp: list_all2_Cons1 ex_result_def)
  with ex h show ?thesis
    by (simp add: evaluation_defs)
qed




lemma create_table_result:
  "fst (create_test_results_table_if_not_exist self w) =
     (case connect (project_target self) of
        Some exn \<Rightarrow> Inl (OtherException exn None)
      | None \<Rightarrow>
         (case respond (project_target self) (DDL_TEST_RESULT_CREATE (schema (project_target self))) of
            RaisesException exn \<Rightarrow> Inl (OtherException exn None)
          | RaisesProgrammingError message_primary \<Rightarrow> Inr ()
          | Executed statusmessage rows \<Rightarrow> Inr ()))"
  by (simp add: recorder_defs split: option.split exec_outcome.split)

lemma insert_test_results_result:
  "fst (insert_test_results self rs w) =
     (case connect (project_target self) of
        Some exn \<Rightarrow> Inl (OtherException exn None)
      | None \<Rightarrow>
         (case respond (project_target self) (DDL_TEST_RESULT_CREATE (schema (project_target self))) of
            RaisesException exn \<Rightarrow> Inl (OtherException exn None)
          | ddl_answer \<Rightarrow>
             (case values_loop self rs [] of
                Inl exn \<Rightarrow> Inl exn
              | Inr vs \<Rightarrow>
                 (case respond (project_target self)
                         (INSERT_TEST_RESULT_TEMPLATE (join '',\<newline>'' vs) (schema (project_target self))) of
                    RaisesException exn \<Rightarrow> Inl (OtherException exn None)
                  | insert_answer \<Rightarrow> Inr ()))))"
  by (simp add: recorder_defs split: option.split exec_outcome.split sum.split)

text \<open>
  Claim C7, as stated, on a database that raises OperationalError on the table
  creation: both \<^verbatim>\<open>create_test_results_table_if_not_exist\<close> and
  \<^verbatim>\<open>insert_test_results\<close> raise it to the caller, and nothing is logged.
\<close>

theorem recorder_raises_OperationalError:
  "create_test_results_table_if_not_exist
      (ex_tester (\<lambda>stmt. RaisesException ''OperationalError'')) ex_world
     = (Inl (OtherException ''OperationalError'' None),
        \<lparr>trace = [GetTarget, GetHandle, Cursor, Execute (DDL_TEST_RESULT_CREATE ''analytics'')],
         ticks = 0, clock = ex_clock\<rparr>)
   \<and> fst (insert_test_results (ex_tester (\<lambda>stmt. RaisesException ''OperationalError''))
           [ex_result (PInt 0) False False] ex_world)
     = Inl (OtherException ''OperationalError'' None)"
  by (simp add: recorder_defs example_defs)

text \<open>
  Claim C7, amended. A ProgrammingError raised by the table-creation statement or by the
  insert statement is logged with \<^verbatim>\<open>logger.exception\<close> and recovered locally: it
  never reaches the caller. The first two equations say exactly when each function
  raises: when \<^verbatim>\<open>get_handle()\<close> raises, when a statement raises an exception other
  than ProgrammingError, and, for \<^verbatim>\<open>insert_test_results\<close>, when the loop raises
  TypeError on a status that is neither a number nor \<^verbatim>\<open>"ERROR"\<close>.
\<close>

theorem recorder_recovers_ProgrammingError:
  "fst (create_test_results_table_if_not_exist self w) =
     (case connect (project_target self) of
        Some exn \<Rightarrow> Inl (OtherException exn None)
      | None \<Rightarrow>
         (case respond (project_target self) (DDL_TEST_RESULT_CREATE (schema (project_target self))) of
            RaisesException exn \<Rightarrow> Inl (OtherException exn None)
          | RaisesProgrammingError message_primary \<Rightarrow> Inr ()
          | Executed statusmessage rows \<Rightarrow> Inr ()))
   \<and> fst (insert_test_results self rs w) =
     (case connect (project_target self) of
        Some exn \<Rightarrow> Inl (OtherException exn None)
      | None \<Rightarrow>
         (case respond (project_target self) (DDL_TEST_RESULT_CREATE (schema (project_target self))) of
            RaisesException exn \<Rightarrow> Inl (OtherException exn None)
          | ddl_answer \<Rightarrow>
             (case values_loop self rs [] of
                Inl exn \<Rightarrow> Inl exn
              | Inr vs \<Rightarrow>
                 (case respond (project_target self)
                         (INSERT_TEST_RESULT_TEMPLATE (join '',\<newline>'' vs) (schema (project_target self))) of
                    RaisesException exn \<Rightarrow> Inl (OtherException exn None)
                  | insert_answer \<Rightarrow> Inr ()))))
   \<and> (connect (project_target self) = None
        \<and> respond (project_target self) (DDL_TEST_RESULT_CREATE (schema (project_target self)))
            = RaisesProgrammingError m
      \<longrightarrow> snd (create_test_results_table_if_not_exist self w) =
           w\<lparr>trace := trace w @
               [GetTarget, GetHandle, Cursor,
                Execute (DDL_TEST_RESULT_CREATE (schema (project_target self))),
                LogException ''programming error: %s''
                  [AStr (DDL_TEST_RESULT_CREATE (schema (project_target self)))]]\<rparr>)
   \<and> (fst (insert_test_results self rs w) = Inr ()
        \<and> values_loop self rs [] = Inr vs
        \<and> respond (project_target self)
              (INSERT_TEST_RESULT_TEMPLATE (join '',\<newline>'' vs) (schema (project_target self)))
            = RaisesProgrammingError m'
      \<longrightarrow> last (trace (snd (insert_test_results self rs w))) =
           LogException ''programming error: %s''
             [AStr (INSERT_TEST_RESULT_TEMPLATE (join '',\<newline>'' vs) (schema (project_target self)))])"
proof (intro conjI impI)
  show "fst (create_test_results_table_if_not_exist self w) =
     (case connect (project_target self) of
        Some exn \<Rightarrow> Inl (OtherException exn None)
      | None \<Rightarrow>
         (case respond (project_target self) (DDL_TEST_RESULT_CREATE (schema (project_target self))) of
            RaisesException exn \<Rightarrow> Inl (OtherException exn None)
          | RaisesProgrammingError message_primary \<Rightarrow> Inr ()
          | Executed statusmessage rows \<Rightarrow> Inr ()))"
    by (rule create_table_result)
next
  show "fst (insert_test_results self rs w) =
     (case connect (project_target self) of
        Some exn \<Rightarrow> Inl (OtherException exn None)
      | None \<Rightarrow>
         (case respond (project_target self) (DDL_TEST_RESULT_CREATE (schema (project_target self))) of
            RaisesException exn \<Rightarrow> Inl (OtherException exn None)
          | ddl_answer \<Rightarrow>
             (case values_loop self rs [] of
                Inl exn \<Rightarrow> Inl exn
              | Inr vs \<Rightarrow>
                 (case respond (project_target self)
                         (INSERT_TEST_RESULT_TEMPLATE (join '',\<newline>'' vs) (schema (project_target self))) of
                    RaisesException exn \<Rightarrow> Inl (OtherException exn None)
                  | insert_answer \<Rightarrow> Inr ()))))"
    by (rule insert_test_results_result)
next
  assume "connect (project_target self) = None
        \<and> respond (project_target self) (DDL_TEST_RESULT_CREATE (schema (project_target self)))
            = RaisesProgrammingError m"
  then show "snd (create_test_results_table_if_not_exist self w) =
           w\<lparr>trace := trace w @
               [GetTarget, GetHandle, Cursor,
                Execute (DDL_TEST_RESULT_CREATE (schema (project_target self))),
                LogException ''programming error: %s''
                  [AStr (DDL_TEST_RESULT_CREATE (schema (project_target self)))]]\<rparr>"
    by (simp add: recorder_defs)
next
  assume a: "fst (insert_test_results self rs w) = Inr ()
        \<and> values_loop self rs [] = Inr vs
        \<and> respond (project_target self)
              (INSERT_TEST_RESULT_TEMPLATE (join '',\<newline>'' vs) (schema (project_target self)))
            = RaisesProgrammingError m'"
  then have r: "fst (insert_test_results self rs w) = Inr ()" by simp
  note i = insert_test_results_Inr [OF r]
  show "last (trace (snd (insert_test_results self rs w))) =
           LogException ''programming error: %s''
             [AStr (INSERT_TEST_RESULT_TEMPLATE (join '',\<newline>'' vs) (schema (project_target self)))]"
  proof (cases "respond (project_target self) (DDL_TEST_RESULT_CREATE (schema (project_target self)))")
    case (RaisesException exn)
    with i(2) show ?thesis by simp
  next
    case (RaisesProgrammingError x)
    with a i(1) show ?thesis by (simp add: recorder_defs)
  next
    case (Executed st rows)
    with a i(1) show ?thesis by (simp add: recorder_defs)
  qed
qed

theorem recorder_recovers_ProgrammingError_witness:
  "connect (project_target (ex_tester (\<lambda>stmt. RaisesProgrammingError (PStr ''permission denied'')))) = None
   \<and> values_loop (ex_tester (\<lambda>stmt. RaisesProgrammingError (PStr ''permission denied'')))
        [ex_result (PInt 2) False False] []
       = Inr [''('2016-06-01 12:00:00', 'orders', false, false, true, 2, 0.25)'']
   \<and> create_test_results_table_if_not_exist
        (ex_tester (\<lambda>stmt. RaisesProgrammingError (PStr ''permission denied''))) ex_world
       = (Inr (),
          ex_world\<lparr>trace := trace ex_world @ [GetTarget, GetHandle, Cursor,
             Execute (DDL_TEST_RESULT_CREATE ''analytics''),
             LogException ''programming error: %s'' [AStr (DDL_TEST_RESULT_CREATE ''analytics'')]]\<rparr>)
   \<and> fst (insert_test_results (ex_tester (\<lambda>stmt. RaisesProgrammingError (PStr ''permission denied'')))
        [ex_result (PInt 2) False False] ex_world) = Inr ()
   \<and> last (trace (snd (insert_test_results
        (ex_tester (\<lambda>stmt. RaisesProgrammingError (PStr ''permission denied'')))
        [ex_result (PInt 2) False False] ex_world)))
       = LogException ''programming error: %s''
           [AStr (INSERT_TEST_RESULT_TEMPLATE
                    ''('2016-06-01 12:00:00', 'orders', false, false, true, 2, 0.25)''
                    ''analytics'')]"
proof -
  let ?T = "ex_tester (\<lambda>stmt. RaisesProgrammingError (PStr ''permission denied''))"
  let ?rs = "[ex_result (PInt 2) False False]"
  let ?vs = "[''('2016-06-01 12:00:00', 'orders', false, false, true, 2, 0.25)'']"
  have c: "connect (project_target ?T) = None"
    by (simp add: example_defs)
  have s: "schema (project_target ?T) = ''analytics''"
    by (simp add: example_defs)
  have d: "respond (project_target ?T) stmt = RaisesProgrammingError (PStr ''permission denied'')"
    for stmt by (simp add: example_defs)
  have v: "values_loop ?T ?rs [] = Inr ?vs"
    by (simp add: format_kwargs_def example_defs ex_result_def value_template_def
          quote_def str_int_def str_nat.simps digit_char_def)
  note t = recorder_recovers_ProgrammingError [of ?T ex_world ?rs "PStr ''permission denied''" ?vs
                          "PStr ''permission denied''"]
  from t c d have r1: "fst (create_test_results_table_if_not_exist ?T ex_world) = Inr ()"
    by simp
  from t c d s have r2: "snd (create_test_results_table_if_not_exist ?T ex_world) =
      ex_world\<lparr>trace := trace ex_world @ [GetTarget, GetHandle, Cursor,
             Execute (DDL_TEST_RESULT_CREATE ''analytics''),
             LogException ''programming error: %s'' [AStr (DDL_TEST_RESULT_CREATE ''analytics'')]]\<rparr>"
    by simp
  from t c d v have r3: "fst (insert_test_results ?T ?rs ex_world) = Inr ()"
    by simp
  from t r3 v d s have r4: "last (trace (snd (insert_test_results ?T ?rs ex_world)))
       = LogException ''programming error: %s''
           [AStr (INSERT_TEST_RESULT_TEMPLATE
                    ''('2016-06-01 12:00:00', 'orders', false, false, true, 2, 0.25)''
                    ''analytics'')]"
    by simp
  from r1 r2 have r12: "create_test_results_table_if_not_exist ?T ex_world
       = (Inr (),
          ex_world\<lparr>trace := trace ex_world @ [GetTarget, GetHandle, Cursor,
             Execute (DDL_TEST_RESULT_CREATE ''analytics''),
             LogException ''programming error: %s'' [AStr (DDL_TEST_RESULT_CREATE ''analytics'')]]\<rparr>)"
    by (simp add: prod_eq_iff)
  from c v r12 r3 r4 show ?thesis by (intro conjI)
qed

section \<open>Properties of the referential-integrity query\<close>

lemma sql_or_true_right: "sql_or p SqlTrue = SqlTrue"
  by (cases p) simp_all

lemma sql_in_no_null:
  assumes "None \<notin> set parent"
  shows "sql_in (Some v) parent = (if Some v \<in> set parent then SqlTrue else SqlFalse)"
  using assms
proof (induction parent)
  case Nil
  then show ?case by simp
next
  case (Cons y ys)
  from Cons.prems obtain a where y: "y = Some a" by (cases y) auto
  from Cons have ih: "sql_in (Some v) ys = (if Some v \<in> set ys then SqlTrue else SqlFalse)"
    by simp
  show ?case by (simp add: y ih sql_or_true_right)
qed

lemma sql_and_true: "(sql_and p q = SqlTrue) = (p = SqlTrue \<and> q = SqlTrue)"
  by (cases p; cases q) simp_all

lemma sql_not_true: "(sql_not p = SqlTrue) = (p = SqlFalse)"
  by (cases p) simp_all

text \<open>When the parent column holds no NULL, the query counts the child rows whose value
  is not NULL and is not a parent value.\<close>

lemma referential_integrity_no_null_parent:
  assumes "None \<notin> set parent"
  shows "QUERY_VALIDATE_REFERENTIAL_INTEGRITY parent child =
           length (filter (\<lambda>id. id \<noteq> None \<and> id \<notin> set parent) child)"
proof -
  have "(sql_and (sql_not (sql_in id parent)) (sql_is_not_null id) = SqlTrue)
          = (id \<noteq> None \<and> id \<notin> set parent)" for id
  proof (cases id)
    case None
    then show ?thesis by (simp add: sql_and_true)
  next
    case (Some v)
    with assms show ?thesis by (simp add: sql_and_true sql_not_true sql_in_no_null)
  qed
  then show ?thesis by (simp add: QUERY_VALIDATE_REFERENTIAL_INTEGRITY_def)
qed

text \<open>A child row whose value is NULL is never counted.\<close>

lemma referential_integrity_null_child:
  "QUERY_VALIDATE_REFERENTIAL_INTEGRITY parent (None # child) =
     QUERY_VALIDATE_REFERENTIAL_INTEGRITY parent child"
  by (simp add: QUERY_VALIDATE_REFERENTIAL_INTEGRITY_def sql_and_true)

lemma sql_in_null_parent:
  assumes "None \<in> set parent"
  shows "sql_in x parent \<noteq> SqlFalse"
  using assms
proof (induction parent)
  case Nil
  then show ?case by simp
next
  case (Cons y ys)
  show ?case
  proof (cases y)
    case None
    then show ?thesis by (cases "sql_in x ys") (simp_all)
  next
    case (Some v)
    with Cons have "sql_in x ys \<noteq> SqlFalse" by simp
    then show ?thesis by (cases "sql_eq x y"; cases "sql_in x ys") simp_all
  qed
qed

text \<open>When the parent column holds a NULL, \<^verbatim>\<open>id not in (select id from parent)\<close> is
  never true, and the query counts nothing.\<close>

lemma referential_integrity_null_parent:
  assumes "None \<in> set parent"
  shows "QUERY_VALIDATE_REFERENTIAL_INTEGRITY parent child = 0"
  using sql_in_null_parent [OF assms]
  by (simp add: QUERY_VALIDATE_REFERENTIAL_INTEGRITY_def sql_and_true sql_not_true)

text \<open>
  Claim C9. The child rows are 5, 1 and NULL. With the parent rows 1 and NULL the row 5
  is not NULL and is no parent value, and the query counts 0 rows; with the parent row 1
  alone it counts the row 5.
\<close>

theorem referential_integrity_null_in_parent:
  "QUERY_VALIDATE_REFERENTIAL_INTEGRITY [Some (1::int), None] [Some 5, Some 1, None] = 0
   \<and> QUERY_VALIDATE_REFERENTIAL_INTEGRITY [Some (1::int)] [Some 5, Some 1, None] = 1"
  by (simp add: QUERY_VALIDATE_REFERENTIAL_INTEGRITY_def)

end
